theory Spec2Isabelle
  imports Main
begin

text \<open>
  A shallow embedding of \<^verbatim>\<open>server/index.js\<close>: the two routes GET /exchange and
  POST /refresh-token as functions from the world of one request (provider and clock),
  the request and the database to the response, the database afterwards and the calls
  made. A handler runs from its request to its response as one step.
\<close>

section \<open>Values supplied by clients\<close>

text \<open>
  Values the Express parsers hand to a route: \<^verbatim>\<open>req.query.code\<close> is a string, an
  array or an object when the parameter is given, and a field of the JSON body is any
  JSON value. \<open>undefined\<close> is \<open>None\<close> of \<open>json option\<close>. Numbers are kept to
  the integers; only their being zero or not is ever inspected.
\<close>

datatype json =
    JNull
  | JBool bool
  | JNum int
  | JStr string
  | JArr "json list"
  | JObj "(string \<times> json) list"

text \<open>JavaScript truthiness, as \<^verbatim>\<open>!code\<close> tests it.\<close>

fun truthy :: "json \<Rightarrow> bool" where
  "truthy JNull = False"
| "truthy (JBool b) = b"
| "truthy (JNum n) = (n \<noteq> 0)"
| "truthy (JStr s) = (s \<noteq> [])"
| "truthy (JArr xs) = True"
| "truthy (JObj kvs) = True"

section \<open>The provider and the clock\<close>

text \<open>A rejected promise or a thrown exception, with its \<^verbatim>\<open>message\<close>.\<close>

datatype exc = Error string

text \<open>
  What \<^verbatim>\<open>client.exchangeCode\<close> and \<^verbatim>\<open>client.exchangeRefreshToken\<close> resolve to. A
  field the provider leaves out is \<open>None\<close>.
\<close>

record access =
  accessToken :: "string option"
  refreshToken :: "string option"
  expiration :: "int option"

text \<open>What \<^verbatim>\<open>smartcar.getVehicles\<close> resolves to.\<close>

record vehicle_response =
  vehicles :: "string list option"

text \<open>
  Everything outside the process that one request observes: the three provider
  operations (each returns or throws), \<^verbatim>\<open>Date.now()\<close> in milliseconds, and the text the
  database driver sends for a query parameter that is neither a string nor null
  (the driver is not part of this repository, so its encoding is a parameter).
\<close>

record world =
  exchangeCode :: "json \<Rightarrow> exc + access"
  getVehicles :: "string \<Rightarrow> exc + vehicle_response"
  exchangeRefreshToken :: "string option \<Rightarrow> exc + access"
  date_now :: int
  pg_text :: "json \<Rightarrow> string"

section \<open>The database\<close>

text \<open>
  A row of a token table. The token columns may hold SQL NULL (\<open>None\<close>);
  \<open>expires_at\<close> is in milliseconds since the epoch.
\<close>

record row =
  vehicle_id :: string
  access_token :: "string option"
  refresh_token :: "string option"
  expires_at :: int

type_synonym table = "row list"

text \<open>
  The relations of the database by name; a name without a relation is \<open>None\<close>, and
  a statement that names it is rejected (\<^verbatim>\<open>db.query\<close> throws). The schema is not part of
  the source, so every relation is taken to have the four columns the statements use.
\<close>

type_synonym database = "string \<Rightarrow> table option"

definition no_relation :: "string \<Rightarrow> exc" where
  "no_relation tbl = Error (''relation '' @ tbl @ '' does not exist'')"

text \<open>
  \<^verbatim>\<open>INSERT ... ON CONFLICT (vehicle_id) DO UPDATE SET access_token = $2, refresh_token = $3,
  expires_at = $4\<close> on the rows of one table: the row whose key conflicts gets the three
  columns, and the new row is added when no key conflicts. The statement needs a unique
  index on \<open>vehicle_id\<close>, under which at most one row conflicts; \<open>unique_ids\<close> below is
  that index as a property of the rows, and it is proved, not assumed, for the
  databases the service reaches.
\<close>

fun on_conflict_update :: "row \<Rightarrow> table \<Rightarrow> table" where
  "on_conflict_update r [] = [r]"
| "on_conflict_update r (x # xs) =
     (if vehicle_id x = vehicle_id r
      then x\<lparr>access_token := access_token r, refresh_token := refresh_token r,
             expires_at := expires_at r\<rparr> # xs
      else x # on_conflict_update r xs)"

definition insert_on_conflict :: "string \<Rightarrow> row \<Rightarrow> database \<Rightarrow> exc + database" where
  "insert_on_conflict tbl r db =
     (case db tbl of
        None \<Rightarrow> Inl (no_relation tbl)
      | Some t \<Rightarrow> Inr (db(tbl \<mapsto> on_conflict_update r t)))"

text \<open>
  \<^verbatim>\<open>SELECT refresh_token FROM tbl WHERE vehicle_id = $1\<close>. A NULL parameter equals no
  key.
\<close>

definition select_refresh_token ::
  "string \<Rightarrow> string option \<Rightarrow> database \<Rightarrow> exc + string option list" where
  "select_refresh_token tbl p db =
     (case db tbl of
        None \<Rightarrow> Inl (no_relation tbl)
      | Some t \<Rightarrow> Inr (map refresh_token (filter (\<lambda>x. p = Some (vehicle_id x)) t)))"

text \<open>
  \<^verbatim>\<open>UPDATE tbl SET access_token = $1, refresh_token = $2, expires_at = $3
  WHERE vehicle_id = $4\<close>.
\<close>

definition set_tokens ::
  "string option \<Rightarrow> string option \<Rightarrow> int \<Rightarrow> string option \<Rightarrow> row \<Rightarrow> row" where
  "set_tokens a r e p x =
     (if p = Some (vehicle_id x)
      then x\<lparr>access_token := a, refresh_token := r, expires_at := e\<rparr>
      else x)"

definition update_tokens ::
  "string \<Rightarrow> string option \<Rightarrow> string option \<Rightarrow> int \<Rightarrow> string option \<Rightarrow> database
     \<Rightarrow> exc + database" where
  "update_tokens tbl a r e p db =
     (case db tbl of
        None \<Rightarrow> Inl (no_relation tbl)
      | Some t \<Rightarrow> Inr (db(tbl \<mapsto> map (set_tokens a r e p) t)))"

text \<open>
  How the driver binds a JavaScript value to a query parameter: \<open>undefined\<close> and
  \<open>null\<close> become NULL, a string is sent as it is, anything else as text.
\<close>

fun prepareValue :: "(json \<Rightarrow> string) \<Rightarrow> json option \<Rightarrow> string option" where
  "prepareValue f None = None"
| "prepareValue f (Some JNull) = None"
| "prepareValue f (Some (JStr s)) = Some s"
| "prepareValue f (Some v) = Some (f v)"

section \<open>Requests, responses and effects\<close>

record exchange_request =
  query_code :: "json option"

record refresh_request =
  req_body :: "json option"

text \<open>
  A response is its status and the members of its JSON body, in order. A member
  whose value is \<open>undefined\<close> is not serialised, so it is not in the list.
\<close>

record response =
  status :: nat
  body :: "(string \<times> json) list"

text \<open>The calls a handler makes to the provider and to the database, as a log.\<close>

datatype event =
    ExchangeCode json
  | GetVehicles string
  | ExchangeRefreshToken "string option"
  | InsertOnConflict string row
  | SelectRefreshToken string "string option"
  | UpdateTokens string "string option" "string option" int "string option"

record outcome =
  response :: response
  db_after :: database
  calls :: "event list"

definition missing_code :: response where
  "missing_code = \<lparr>status = 400, body = [(''error'', JStr ''Missing authorization code'')]\<rparr>"

definition session_expired :: response where
  "session_expired =
     \<lparr>status = 401, body = [(''error'', JStr ''Session expired. Please log in again.'')]\<rparr>"

definition no_vehicles :: response where
  "no_vehicles = \<lparr>status = 400, body = [(''error'', JStr ''No vehicles found.'')]\<rparr>"

definition vehicle_not_found :: response where
  "vehicle_not_found = \<lparr>status = 404, body = [(''error'', JStr ''Vehicle not found'')]\<rparr>"

text \<open>The body of a \<^verbatim>\<open>catch\<close> block: status 500 with the exception's message.\<close>

fun caught :: "string \<Rightarrow> exc \<Rightarrow> response" where
  "caught what (Error msg) =
     \<lparr>status = 500, body = [(''error'', JStr what), (''details'', JStr msg)]\<rparr>"

definition connected :: "string \<Rightarrow> string \<Rightarrow> response" where
  "connected vehicleId at =
     \<lparr>status = 200,
      body = [(''message'', JStr ''Successfully connected vehicle''),
              (''vehicleId'', JStr vehicleId),
              (''accessToken'', JStr at)]\<rparr>"

definition refreshed :: "string option \<Rightarrow> response" where
  "refreshed at =
     \<lparr>status = 200,
      body = (''message'', JStr ''Token refreshed successfully'') #
             (case at of None \<Rightarrow> [] | Some t \<Rightarrow> [(''accessToken'', JStr t)])\<rparr>"

section \<open>GET /exchange\<close>

text \<open>
  The route of lines 34 to 106. \<^verbatim>\<open>!code\<close> holds for an absent parameter and for the
  empty string; \<^verbatim>\<open>!access.accessToken\<close> for an absent and for an empty token. The upsert
  names the table \<^verbatim>\<open>vehicles\<close>. Every exception ends in the \<^verbatim>\<open>catch\<close> block.
\<close>

definition get_exchange :: "world \<Rightarrow> exchange_request \<Rightarrow> database \<Rightarrow> outcome" where
  "get_exchange w req db =
     (case query_code req of
        None \<Rightarrow> \<lparr>response = missing_code, db_after = db, calls = []\<rparr>
      | Some code \<Rightarrow>
          if \<not> truthy code
          then \<lparr>response = missing_code, db_after = db, calls = []\<rparr>
          else
            (case exchangeCode w code of
               Inl err \<Rightarrow>
                 \<lparr>response = caught ''Failed to exchange token or store data'' err,
                  db_after = db, calls = [ExchangeCode code]\<rparr>
             | Inr access \<Rightarrow>
                 (case accessToken access of
                    None \<Rightarrow>
                      \<lparr>response = session_expired, db_after = db,
                       calls = [ExchangeCode code]\<rparr>
                  | Some at \<Rightarrow>
                      if at = []
                      then \<lparr>response = session_expired, db_after = db,
                            calls = [ExchangeCode code]\<rparr>
                      else
                        (case getVehicles w at of
                           Inl err \<Rightarrow>
                             \<lparr>response = caught ''Failed to exchange token or store data'' err,
                              db_after = db,
                              calls = [ExchangeCode code, GetVehicles at]\<rparr>
                         | Inr vehicleResponse \<Rightarrow>
                             (case vehicles vehicleResponse of
                                None \<Rightarrow>
                                  \<lparr>response = no_vehicles, db_after = db,
                                   calls = [ExchangeCode code, GetVehicles at]\<rparr>
                              | Some vs \<Rightarrow>
                                  (case vs of
                                     [] \<Rightarrow>
                                       \<lparr>response = no_vehicles, db_after = db,
                                        calls = [ExchangeCode code, GetVehicles at]\<rparr>
                                   | vehicleId # rest \<Rightarrow>
                                       (let r = \<lparr>vehicle_id = vehicleId,
                                                  access_token = Some at,
                                                  refresh_token = refreshToken access,
                                                  expires_at = date_now w + 7200000\<rparr>
                                        in case insert_on_conflict ''vehicles'' r db of
                                             Inl err \<Rightarrow>
                                               \<lparr>response =
                                                  caught ''Failed to exchange token or store data'' err,
                                                db_after = db,
                                                calls = [ExchangeCode code, GetVehicles at,
                                                         InsertOnConflict ''vehicles'' r]\<rparr>
                                           | Inr db' \<Rightarrow>
                                               \<lparr>response = connected vehicleId at,
                                                db_after = db',
                                                calls = [ExchangeCode code, GetVehicles at,
                                                         InsertOnConflict ''vehicles'' r]\<rparr>)))))))"

section \<open>POST /refresh-token\<close>

text \<open>
  \<^verbatim>\<open>const { vehicleId } = req.body\<close>: a body that is \<open>undefined\<close> or \<open>null\<close> cannot
  be destructured (a TypeError, caught by the route); an object gives its member or
  \<open>undefined\<close>; any other value has no such member.
\<close>

fun body_vehicleId :: "json option \<Rightarrow> exc + json option" where
  "body_vehicleId None = Inl (Error ''Cannot destructure property vehicleId of req.body'')"
| "body_vehicleId (Some JNull) =
     Inl (Error ''Cannot destructure property vehicleId of req.body'')"
| "body_vehicleId (Some (JObj kvs)) = Inr (map_of kvs ''vehicleId'')"
| "body_vehicleId (Some v) = Inr None"

text \<open>
  The route of lines 109 to 155. The lookup names the table \<^verbatim>\<open>vehicle\<close>, the update the
  table \<^verbatim>\<open>vehicles\<close>.
\<close>

definition post_refresh_token :: "world \<Rightarrow> refresh_request \<Rightarrow> database \<Rightarrow> outcome" where
  "post_refresh_token w req db =
     (case body_vehicleId (req_body req) of
        Inl err \<Rightarrow>
          \<lparr>response = caught ''Failed to refresh token'' err, db_after = db, calls = []\<rparr>
      | Inr vehicleId \<Rightarrow>
          (let p = prepareValue (pg_text w) vehicleId
           in case select_refresh_token ''vehicle'' p db of
                Inl err \<Rightarrow>
                  \<lparr>response = caught ''Failed to refresh token'' err, db_after = db,
                   calls = [SelectRefreshToken ''vehicle'' p]\<rparr>
              | Inr rows \<Rightarrow>
                  (case rows of
                     [] \<Rightarrow>
                       \<lparr>response = vehicle_not_found, db_after = db,
                        calls = [SelectRefreshToken ''vehicle'' p]\<rparr>
                   | stored # others \<Rightarrow>
                       (case exchangeRefreshToken w stored of
                          Inl err \<Rightarrow>
                            \<lparr>response = caught ''Failed to refresh token'' err, db_after = db,
                             calls = [SelectRefreshToken ''vehicle'' p,
                                      ExchangeRefreshToken stored]\<rparr>
                        | Inr access \<Rightarrow>
                            (case update_tokens ''vehicles'' (accessToken access)
                                    (refreshToken access) (date_now w + 7200000) p db of
                               Inl err \<Rightarrow>
                                 \<lparr>response = caught ''Failed to refresh token'' err,
                                  db_after = db,
                                  calls = [SelectRefreshToken ''vehicle'' p,
                                           ExchangeRefreshToken stored,
                                           UpdateTokens ''vehicles'' (accessToken access)
                                             (refreshToken access) (date_now w + 7200000) p]\<rparr>
                             | Inr db' \<Rightarrow>
                                 \<lparr>response = refreshed (accessToken access),
                                  db_after = db',
                                  calls = [SelectRefreshToken ''vehicle'' p,
                                           ExchangeRefreshToken stored,
                                           UpdateTokens ''vehicles'' (accessToken access)
                                             (refreshToken access) (date_now w + 7200000) p]\<rparr>)))))"

text \<open>
  The error middleware of lines 158 to 164, and the route behind \<^verbatim>\<open>express.json()\<close>
  (line 13): a body the parser rejects never reaches the handler; the parser's error is
  passed on and the error middleware answers it.
\<close>

fun error_middleware :: "exc \<Rightarrow> response" where
  "error_middleware (Error msg) =
     \<lparr>status = 500, body = [(''error'', JStr ''Something went wrong!''), (''details'', JStr msg)]\<rparr>"

definition refresh_route :: "world \<Rightarrow> exc + refresh_request \<Rightarrow> database \<Rightarrow> outcome" where
  "refresh_route w parsed db =
     (case parsed of
        Inl err \<Rightarrow> \<lparr>response = error_middleware err, db_after = db, calls = []\<rparr>
      | Inr req \<Rightarrow> post_refresh_token w req db)"

section \<open>Stored records and reachable databases\<close>

text \<open>The records a table holds for one vehicle.\<close>

definition records_of :: "string \<Rightarrow> table \<Rightarrow> row list" where
  "records_of v t = filter (\<lambda>x. vehicle_id x = v) t"

text \<open>At most one record for each \<open>vehicle_id\<close>: the keys of the rows are distinct.\<close>

definition unique_ids :: "table \<Rightarrow> bool" where
  "unique_ids t = distinct (map vehicle_id t)"

text \<open>
  The databases the service can be in: it starts on a database whose tables, whichever
  exist, are empty, and every request to either route, in any world, takes it to the next.
\<close>

inductive reachable :: "database \<Rightarrow> bool" where
  start: "(\<forall>n t. db n = Some t \<longrightarrow> t = []) \<Longrightarrow> reachable db"
| exchange: "reachable db \<Longrightarrow> reachable (db_after (get_exchange w req db))"
| refresh: "reachable db \<Longrightarrow> reachable (db_after (post_refresh_token w req db))"

section \<open>The scenario of the specification\<close>

text \<open>
  The provider of the specification's scenario: the code \<^verbatim>\<open>VALIDCODE\<close> is exchanged for
  the tokens \<^verbatim>\<open>AT1\<close> and \<^verbatim>\<open>RT1\<close>, the vehicle list is \<^verbatim>\<open>veh_123\<close> alone, and a refresh of
  \<^verbatim>\<open>RT1\<close> gives \<^verbatim>\<open>AT2\<close> and \<^verbatim>\<open>RT2\<close>.
\<close>

definition scenario_world :: "int \<Rightarrow> world" where
  "scenario_world t =
     \<lparr>exchangeCode = (\<lambda>c. if c = JStr ''VALIDCODE''
                           then Inr \<lparr>accessToken = Some ''AT1'', refreshToken = Some ''RT1'',
                                     expiration = Some (t + 3600000)\<rparr>
                           else Inl (Error ''invalid_grant'')),
      getVehicles = (\<lambda>a. if a = ''AT1'' then Inr \<lparr>vehicles = Some [''veh_123'']\<rparr>
                          else Inl (Error ''authentication'')),
      exchangeRefreshToken = (\<lambda>r. if r = Some ''RT1''
                           then Inr \<lparr>accessToken = Some ''AT2'', refreshToken = Some ''RT2'',
                                     expiration = Some (t + 3600000)\<rparr>
                           else Inl (Error ''invalid_grant'')),
      date_now = t,
      pg_text = (\<lambda>v. ''?'')\<rparr>"

definition valid_code_request :: exchange_request where
  "valid_code_request = \<lparr>query_code = Some (JStr ''VALIDCODE'')\<rparr>"

definition refresh_of :: "string \<Rightarrow> refresh_request" where
  "refresh_of v = \<lparr>req_body = Some (JObj [(''vehicleId'', JStr v)])\<rparr>"

text \<open>A database with the table \<^verbatim>\<open>vehicles\<close> alone, empty.\<close>

definition vehicles_only :: database where
  "vehicles_only = Map.empty(''vehicles'' \<mapsto> [])"

text \<open>A database with both tables the source names, \<^verbatim>\<open>vehicles\<close> and \<^verbatim>\<open>vehicle\<close>, empty.\<close>

definition both_tables :: database where
  "both_tables = Map.empty(''vehicles'' \<mapsto> [], ''vehicle'' \<mapsto> [])"

text \<open>
  A later consent for the same vehicle: the code \<^verbatim>\<open>CODE2\<close> is exchanged for the tokens
  \<^verbatim>\<open>AT3\<close> and \<^verbatim>\<open>RT3\<close>, and the vehicle list starts with \<^verbatim>\<open>veh_123\<close>.
\<close>

definition reconnect_world :: "int \<Rightarrow> world" where
  "reconnect_world t =
     \<lparr>exchangeCode = (\<lambda>c. if c = JStr ''CODE2''
                           then Inr \<lparr>accessToken = Some ''AT3'', refreshToken = Some ''RT3'',
                                     expiration = Some (t + 3600000)\<rparr>
                           else Inl (Error ''invalid_grant'')),
      getVehicles = (\<lambda>a. if a = ''AT3''
                          then Inr \<lparr>vehicles = Some [''veh_123'', ''veh_456'']\<rparr>
                          else Inl (Error ''authentication'')),
      exchangeRefreshToken = (\<lambda>r. Inl (Error ''invalid_grant'')),
      date_now = t,
      pg_text = (\<lambda>v. ''?'')\<rparr>"

section \<open>The upsert and the update on a table\<close>

lemma on_conflict_update_ids:
  "set (map vehicle_id (on_conflict_update r t)) = insert (vehicle_id r) (set (map vehicle_id t))"
  by (induction t) auto

lemma on_conflict_update_unique:
  "unique_ids t \<Longrightarrow> unique_ids (on_conflict_update r t)"
  unfolding unique_ids_def
proof (induction t)
  case Nil
  show ?case by simp
next
  case (Cons x xs)
  have "vehicle_id x \<notin> set (map vehicle_id (on_conflict_update r xs))"
    if "vehicle_id x \<noteq> vehicle_id r"
    using that Cons.prems by (simp add: on_conflict_update_ids del: set_map)
  with Cons show ?case by auto
qed

lemma on_conflict_update_mem: "r \<in> set (on_conflict_update r t)"
  by (induction t) auto

lemma on_conflict_update_records:
  "unique_ids t \<Longrightarrow> records_of (vehicle_id r) (on_conflict_update r t) = [r]"
  unfolding unique_ids_def records_of_def
  by (induction t) (auto simp: filter_empty_conv image_iff)

lemma on_conflict_update_others:
  "k \<noteq> vehicle_id r \<Longrightarrow> records_of k (on_conflict_update r t) = records_of k t"
  unfolding records_of_def by (induction t) auto

lemma set_tokens_id: "vehicle_id (set_tokens a r e p x) = vehicle_id x"
  by (simp add: set_tokens_def)

lemma set_tokens_unique: "unique_ids (map (set_tokens a r e p) t) = unique_ids t"
  by (simp add: unique_ids_def set_tokens_id comp_def)

lemma unique_ids_at_most_one: "unique_ids t \<Longrightarrow> length (records_of v t) \<le> 1"
  unfolding unique_ids_def records_of_def
  by (induction t) (auto simp: filter_empty_conv image_iff)

section \<open>What the two routes do to the database\<close>

lemma caught_status: "status (caught what err) = 500"
  by (cases err) simp

text \<open>Either route leaves the database as it was or rewrites the table \<^verbatim>\<open>vehicles\<close>.\<close>

lemma get_exchange_db:
  "db_after (get_exchange w req db) = db \<or>
   (\<exists>t r. db ''vehicles'' = Some t \<and>
      db_after (get_exchange w req db) = db(''vehicles'' \<mapsto> on_conflict_update r t))"
  by (auto simp: get_exchange_def insert_on_conflict_def Let_def
      split: option.splits sum.splits list.splits)

lemma post_refresh_token_db:
  "db_after (post_refresh_token w req db) = db \<or>
   (\<exists>t a r e p. db ''vehicles'' = Some t \<and>
      db_after (post_refresh_token w req db) = db(''vehicles'' \<mapsto> map (set_tokens a r e p) t))"
  by (auto simp: post_refresh_token_def update_tokens_def Let_def
      split: option.splits sum.splits list.splits)

lemma get_exchange_other_tables:
  "n \<noteq> ''vehicles'' \<Longrightarrow> db_after (get_exchange w req db) n = db n"
  using get_exchange_db [of w req db] by auto

lemma post_refresh_token_other_tables:
  "n \<noteq> ''vehicles'' \<Longrightarrow> db_after (post_refresh_token w req db) n = db n"
  using post_refresh_token_db [of w req db] by auto

text \<open>The path of GET /exchange that reaches the upsert, and the only one that answers 200.\<close>

lemma get_exchange_stores:
  assumes "query_code req = Some code" and "truthy code"
    and "exchangeCode w code = Inr access"
    and "accessToken access = Some at" and "at \<noteq> []"
    and "getVehicles w at = Inr vehicleResponse"
    and "vehicles vehicleResponse = Some (vehicleId # rest)"
    and "db ''vehicles'' = Some t"
  shows "get_exchange w req db =
     \<lparr>response = connected vehicleId at,
      db_after = db(''vehicles'' \<mapsto> on_conflict_update
         \<lparr>vehicle_id = vehicleId, access_token = Some at,
          refresh_token = refreshToken access, expires_at = date_now w + 7200000\<rparr> t),
      calls = [ExchangeCode code, GetVehicles at, InsertOnConflict ''vehicles''
         \<lparr>vehicle_id = vehicleId, access_token = Some at,
          refresh_token = refreshToken access, expires_at = date_now w + 7200000\<rparr>]\<rparr>"
  using assms by (simp add: get_exchange_def insert_on_conflict_def Let_def)

lemma get_exchange_200D:
  assumes "status (response (get_exchange w req db)) = 200"
  shows "\<exists>code access at vehicleResponse vehicleId rest t.
      query_code req = Some code \<and> truthy code \<and> exchangeCode w code = Inr access \<and>
      accessToken access = Some at \<and> at \<noteq> [] \<and> getVehicles w at = Inr vehicleResponse \<and>
      vehicles vehicleResponse = Some (vehicleId # rest) \<and> db ''vehicles'' = Some t"
  using assms
  by (auto simp: get_exchange_def insert_on_conflict_def Let_def caught_status
      missing_code_def session_expired_def no_vehicles_def
      split: option.splits sum.splits list.splits if_splits)

text \<open>An empty \<open>code\<close> is rejected like an absent one: \<^verbatim>\<open>!""\<close> is true.\<close>

lemma exchange_empty_code:
  "query_code req = Some (JStr []) \<Longrightarrow>
   get_exchange w req db = \<lparr>response = missing_code, db_after = db, calls = []\<rparr>"
  by (simp add: get_exchange_def)

text \<open>The keys of every table stay distinct in every reachable database.\<close>

lemma reachable_unique_ids: "reachable db \<Longrightarrow> db n = Some t \<Longrightarrow> unique_ids t"
proof (induction arbitrary: n t rule: reachable.induct)
  case (start db)
  then have "t = []" by blast
  then show ?case by (simp add: unique_ids_def)
next
  case (exchange db w req)
  from get_exchange_db [of w req db] show ?case
  proof
    assume "db_after (get_exchange w req db) = db"
    with exchange show ?thesis by simp
  next
    assume "\<exists>t r. db ''vehicles'' = Some t \<and>
      db_after (get_exchange w req db) = db(''vehicles'' \<mapsto> on_conflict_update r t)"
    then obtain t0 r where t0: "db ''vehicles'' = Some t0"
      and eq: "db_after (get_exchange w req db) = db(''vehicles'' \<mapsto> on_conflict_update r t0)"
      by blast
    show ?thesis
    proof (cases "n = ''vehicles''")
      case True
      with exchange.prems eq have "t = on_conflict_update r t0" by simp
      with exchange.IH [OF t0] show ?thesis by (simp add: on_conflict_update_unique)
    next
      case False
      with exchange.prems eq have "db n = Some t" by simp
      then show ?thesis by (rule exchange.IH)
    qed
  qed
next
  case (refresh db w req)
  from post_refresh_token_db [of w req db] show ?case
  proof
    assume "db_after (post_refresh_token w req db) = db"
    with refresh show ?thesis by simp
  next
    assume "\<exists>t a r e p. db ''vehicles'' = Some t \<and>
      db_after (post_refresh_token w req db) = db(''vehicles'' \<mapsto> map (set_tokens a r e p) t)"
    then obtain t0 a r e p where t0: "db ''vehicles'' = Some t0"
      and eq: "db_after (post_refresh_token w req db) =
                 db(''vehicles'' \<mapsto> map (set_tokens a r e p) t0)"
      by blast
    show ?thesis
    proof (cases "n = ''vehicles''")
      case True
      with refresh.prems eq have "t = map (set_tokens a r e p) t0" by simp
      with refresh.IH [OF t0] show ?thesis by (simp add: set_tokens_unique)
    next
      case False
      with refresh.prems eq have "db n = Some t" by simp
      then show ?thesis by (rule refresh.IH)
    qed
  qed
qed

section \<open>GET /exchange: the claims\<close>

text \<open>
  Claim C5. A GET /exchange request without the query parameter \<open>code\<close> is answered
  with status 400 and the body \<^verbatim>\<open>{error: "Missing authorization code"}\<close>; the handler
  calls neither the provider nor the database, and the database is as it was.
\<close>

theorem exchange_missing_code:
  "query_code req = None \<Longrightarrow>
   get_exchange w req db =
     \<lparr>response = \<lparr>status = 400, body = [(''error'', JStr ''Missing authorization code'')]\<rparr>,
      db_after = db, calls = []\<rparr>"
  by (simp add: get_exchange_def missing_code_def)

theorem exchange_missing_code_witness:
  "get_exchange (scenario_world 0) \<lparr>query_code = None\<rparr> vehicles_only =
     \<lparr>response = \<lparr>status = 400, body = [(''error'', JStr ''Missing authorization code'')]\<rparr>,
      db_after = vehicles_only, calls = []\<rparr>"
  using exchange_missing_code [of "\<lparr>query_code = None\<rparr>" "scenario_world 0" vehicles_only]
  by simp

text \<open>
  Claim C7. A GET /exchange request carries a code (one that \<^verbatim>\<open>!code\<close> does not reject)
  and the provider's exchange of it returns without an access token (absent, or the
  empty string). Then the response is 401 with the body
  \<^verbatim>\<open>{error: "Session expired. Please log in again."}\<close>, the only call made is the code
  exchange (no vehicle listing, no database statement), and the database is as it was.
\<close>

theorem exchange_no_access_token:
  assumes "query_code req = Some code" and "truthy code"
    and "exchangeCode w code = Inr access"
    and "accessToken access = None \<or> accessToken access = Some []"
  shows "get_exchange w req db =
     \<lparr>response = \<lparr>status = 401,
                  body = [(''error'', JStr ''Session expired. Please log in again.'')]\<rparr>,
      db_after = db, calls = [ExchangeCode code]\<rparr>"
  using assms by (auto simp: get_exchange_def session_expired_def)

theorem exchange_no_access_token_witness:
  "get_exchange
     ((scenario_world 5)\<lparr>exchangeCode := \<lambda>c. Inr \<lparr>accessToken = None, refreshToken = None,
                                                  expiration = None\<rparr>\<rparr>)
     valid_code_request vehicles_only =
     \<lparr>response = \<lparr>status = 401,
                  body = [(''error'', JStr ''Session expired. Please log in again.'')]\<rparr>,
      db_after = vehicles_only, calls = [ExchangeCode (JStr ''VALIDCODE'')]\<rparr>"
  using exchange_no_access_token [of valid_code_request "JStr ''VALIDCODE''"
      "(scenario_world 5)\<lparr>exchangeCode := \<lambda>c. Inr \<lparr>accessToken = None, refreshToken = None,
                                                  expiration = None\<rparr>\<rparr>"
      "\<lparr>accessToken = None, refreshToken = None, expiration = None\<rparr>" vehicles_only]
  by (simp add: valid_code_request_def)

text \<open>
  Claim C8. A GET /exchange request carries a code, the provider exchanges it for an
  access token, and the provider's vehicle listing returns with the list absent or
  empty. Then the response is 400 with the body \<^verbatim>\<open>{error: "No vehicles found."}\<close>, the
  calls made are the code exchange and the listing (no database statement), and the
  database is as it was.
\<close>

theorem exchange_no_vehicles:
  assumes "query_code req = Some code" and "truthy code"
    and "exchangeCode w code = Inr access"
    and "accessToken access = Some at" and "at \<noteq> []"
    and "getVehicles w at = Inr vehicleResponse"
    and "vehicles vehicleResponse = None \<or> vehicles vehicleResponse = Some []"
  shows "get_exchange w req db =
     \<lparr>response = \<lparr>status = 400, body = [(''error'', JStr ''No vehicles found.'')]\<rparr>,
      db_after = db, calls = [ExchangeCode code, GetVehicles at]\<rparr>"
  using assms by (auto simp: get_exchange_def no_vehicles_def)

theorem exchange_no_vehicles_witness:
  "get_exchange ((scenario_world 5)\<lparr>getVehicles := \<lambda>a. Inr \<lparr>vehicles = Some []\<rparr>\<rparr>)
     valid_code_request vehicles_only =
     \<lparr>response = \<lparr>status = 400, body = [(''error'', JStr ''No vehicles found.'')]\<rparr>,
      db_after = vehicles_only,
      calls = [ExchangeCode (JStr ''VALIDCODE''), GetVehicles ''AT1'']\<rparr>"
  using exchange_no_vehicles [of valid_code_request "JStr ''VALIDCODE''"
      "(scenario_world 5)\<lparr>getVehicles := \<lambda>a. Inr \<lparr>vehicles = Some []\<rparr>\<rparr>"
      "\<lparr>accessToken = Some ''AT1'', refreshToken = Some ''RT1'', expiration = Some 3600005\<rparr>"
      "''AT1''" "\<lparr>vehicles = Some []\<rparr>" vehicles_only]
  by (simp add: valid_code_request_def scenario_world_def)

text \<open>
  Claim C2. A GET /exchange request carries a code (one that \<^verbatim>\<open>!code\<close> does not
  reject), the provider exchanges it for an access token (a non-empty one, which
  \<^verbatim>\<open>!access.accessToken\<close> does not reject) and lists at least one vehicle, and the table
  \<^verbatim>\<open>vehicles\<close> that the upsert names exists. Then the response is 200 with the members
  \<open>message\<close> (\<^verbatim>\<open>Successfully connected vehicle\<close>), \<open>vehicleId\<close> (the first vehicle of the
  list) and \<open>accessToken\<close> (the provider's token); the one statement sent to the
  database is the upsert of the record \<open>r\<close> keyed by that vehicle, with the provider's
  access and refresh tokens and \<open>expires_at\<close> equal to the clock plus 7200000 ms,
  whatever \<open>expiration\<close> the provider returned. Afterwards the table holds \<open>r\<close>, the
  records of every other vehicle are as before, and, when the keys of the table were
  distinct, \<open>r\<close> is the only record of its vehicle.
\<close>

theorem exchange_success:
  assumes "query_code req = Some code" and "truthy code"
    and "exchangeCode w code = Inr access"
    and "accessToken access = Some at" and "at \<noteq> []"
    and "getVehicles w at = Inr vehicleResponse"
    and "vehicles vehicleResponse = Some (vehicleId # rest)"
    and "db ''vehicles'' = Some t"
    and "r = \<lparr>vehicle_id = vehicleId, access_token = Some at,
              refresh_token = refreshToken access, expires_at = date_now w + 7200000\<rparr>"
  shows "response (get_exchange w req db) =
           \<lparr>status = 200,
            body = [(''message'', JStr ''Successfully connected vehicle''),
                    (''vehicleId'', JStr vehicleId), (''accessToken'', JStr at)]\<rparr>
       \<and> calls (get_exchange w req db) =
           [ExchangeCode code, GetVehicles at, InsertOnConflict ''vehicles'' r]
       \<and> db_after (get_exchange w req db) = db(''vehicles'' \<mapsto> on_conflict_update r t)
       \<and> r \<in> set (on_conflict_update r t)
       \<and> (\<forall>k. k \<noteq> vehicleId \<longrightarrow> records_of k (on_conflict_update r t) = records_of k t)
       \<and> (unique_ids t \<longrightarrow> records_of vehicleId (on_conflict_update r t) = [r])"
proof -
  have "get_exchange w req db =
     \<lparr>response = connected vehicleId at,
      db_after = db(''vehicles'' \<mapsto> on_conflict_update r t),
      calls = [ExchangeCode code, GetVehicles at, InsertOnConflict ''vehicles'' r]\<rparr>"
    unfolding assms(9) using assms(1-8) by (rule get_exchange_stores)
  moreover have "records_of k (on_conflict_update r t) = records_of k t" if "k \<noteq> vehicleId" for k
    using that on_conflict_update_others [of k r t] assms(9) by simp
  moreover have "records_of vehicleId (on_conflict_update r t) = [r]" if "unique_ids t"
    using that on_conflict_update_records [of t r] assms(9) by simp
  ultimately show ?thesis
    by (simp add: connected_def on_conflict_update_mem)
qed

theorem exchange_success_witness:
  "response (get_exchange (scenario_world 5) valid_code_request vehicles_only) =
     \<lparr>status = 200,
      body = [(''message'', JStr ''Successfully connected vehicle''),
              (''vehicleId'', JStr ''veh_123''), (''accessToken'', JStr ''AT1'')]\<rparr>
   \<and> db_after (get_exchange (scenario_world 5) valid_code_request vehicles_only) ''vehicles'' =
       Some [\<lparr>vehicle_id = ''veh_123'', access_token = Some ''AT1'',
              refresh_token = Some ''RT1'', expires_at = 7200005\<rparr>]"
  using exchange_success [of valid_code_request "JStr ''VALIDCODE''" "scenario_world 5"
      "\<lparr>accessToken = Some ''AT1'', refreshToken = Some ''RT1'', expiration = Some 3600005\<rparr>"
      "''AT1''" "\<lparr>vehicles = Some [''veh_123'']\<rparr>" "''veh_123''" "[]" vehicles_only "[]"
      "\<lparr>vehicle_id = ''veh_123'', access_token = Some ''AT1'',
              refresh_token = Some ''RT1'', expires_at = 7200005\<rparr>"]
  by (simp add: scenario_world_def valid_code_request_def vehicles_only_def)

text \<open>
  Claim C9. Whenever GET /exchange answers 200, the body is \<open>message\<close>, \<open>vehicleId\<close>
  and \<open>accessToken\<close>, and the table \<^verbatim>\<open>vehicles\<close> afterwards holds a record whose
  \<open>vehicle_id\<close> is the \<open>vehicleId\<close> of the response and whose \<open>access_token\<close> is the
  \<open>accessToken\<close> of the response; when the keys of the table were distinct before,
  it is the only record of that vehicle.
\<close>

theorem exchange_response_matches_store:
  assumes "status (response (get_exchange w req db)) = 200"
  shows "\<exists>v at t r.
      body (response (get_exchange w req db)) =
        [(''message'', JStr ''Successfully connected vehicle''),
         (''vehicleId'', JStr v), (''accessToken'', JStr at)]
    \<and> db_after (get_exchange w req db) ''vehicles'' = Some t
    \<and> r \<in> set t \<and> vehicle_id r = v \<and> access_token r = Some at
    \<and> ((\<forall>t0. db ''vehicles'' = Some t0 \<longrightarrow> unique_ids t0) \<longrightarrow> records_of v t = [r])"
proof -
  from get_exchange_200D [OF assms] obtain code access at vr vid rest t0 where
    f: "query_code req = Some code" "truthy code" "exchangeCode w code = Inr access"
       "accessToken access = Some at" "at \<noteq> []" "getVehicles w at = Inr vr"
       "vehicles vr = Some (vid # rest)" "db ''vehicles'' = Some t0"
    by blast
  let ?r = "\<lparr>vehicle_id = vid, access_token = Some at,
             refresh_token = refreshToken access, expires_at = date_now w + 7200000\<rparr>"
  have eq: "get_exchange w req db =
     \<lparr>response = connected vid at,
      db_after = db(''vehicles'' \<mapsto> on_conflict_update ?r t0),
      calls = [ExchangeCode code, GetVehicles at, InsertOnConflict ''vehicles'' ?r]\<rparr>"
    using f by (rule get_exchange_stores)
  have "records_of vid (on_conflict_update ?r t0) = [?r]" if "unique_ids t0"
    using on_conflict_update_records [OF that, of ?r] by simp
  then have "body (response (get_exchange w req db)) =
        [(''message'', JStr ''Successfully connected vehicle''),
         (''vehicleId'', JStr vid), (''accessToken'', JStr at)]
    \<and> db_after (get_exchange w req db) ''vehicles'' = Some (on_conflict_update ?r t0)
    \<and> ?r \<in> set (on_conflict_update ?r t0) \<and> vehicle_id ?r = vid \<and> access_token ?r = Some at
    \<and> ((\<forall>t0. db ''vehicles'' = Some t0 \<longrightarrow> unique_ids t0)
          \<longrightarrow> records_of vid (on_conflict_update ?r t0) = [?r])"
    using f(8) by (simp add: eq connected_def on_conflict_update_mem)
  then show ?thesis by blast
qed

theorem exchange_response_matches_store_witness:
  "status (response (get_exchange (scenario_world 5) valid_code_request vehicles_only)) = 200
   \<and> (\<exists>v at t r.
      body (response (get_exchange (scenario_world 5) valid_code_request vehicles_only)) =
        [(''message'', JStr ''Successfully connected vehicle''),
         (''vehicleId'', JStr v), (''accessToken'', JStr at)]
    \<and> db_after (get_exchange (scenario_world 5) valid_code_request vehicles_only) ''vehicles''
        = Some t
    \<and> r \<in> set t \<and> vehicle_id r = v \<and> access_token r = Some at \<and> records_of v t = [r])"
proof -
  have s: "status (response (get_exchange (scenario_world 5) valid_code_request vehicles_only))
             = 200"
    by (simp add: scenario_world_def valid_code_request_def vehicles_only_def
        get_exchange_def insert_on_conflict_def connected_def Let_def)
  have u: "\<forall>t0. vehicles_only ''vehicles'' = Some t0 \<longrightarrow> unique_ids t0"
    by (simp add: vehicles_only_def unique_ids_def)
  from exchange_response_matches_store [OF s] u s show ?thesis by blast
qed

text \<open>
  Claim C4. In every database the service can reach, every table holds at most one
  record for each \<open>vehicle_id\<close>. And from such a database, when a GET /exchange answers
  200 for the vehicle \<open>v\<close> and the next GET /exchange, whose code the provider exchanges
  for \<open>access2\<close>, answers 200 for the same \<open>v\<close>, the table \<^verbatim>\<open>vehicles\<close> then holds exactly
  one record for \<open>v\<close>: the access and refresh tokens of \<open>access2\<close>, and \<open>expires_at\<close>
  equal to the clock of the second call plus 7200000 ms.
\<close>

theorem exchange_twice_one_record:
  assumes "reachable db"
  shows "(\<forall>n t v. db n = Some t \<longrightarrow> length (records_of v t) \<le> 1)
     \<and> (response (get_exchange w1 req1 db) =
           \<lparr>status = 200,
            body = [(''message'', JStr ''Successfully connected vehicle''),
                    (''vehicleId'', JStr v), (''accessToken'', JStr at1)]\<rparr>
         \<and> query_code req2 = Some code2 \<and> exchangeCode w2 code2 = Inr access2
         \<and> response (get_exchange w2 req2 (db_after (get_exchange w1 req1 db))) =
           \<lparr>status = 200,
            body = [(''message'', JStr ''Successfully connected vehicle''),
                    (''vehicleId'', JStr v), (''accessToken'', JStr at2)]\<rparr>
         \<longrightarrow> (\<exists>t. db_after (get_exchange w2 req2 (db_after (get_exchange w1 req1 db)))
                   ''vehicles'' = Some t
               \<and> records_of v t =
                   [\<lparr>vehicle_id = v, access_token = accessToken access2,
                     refresh_token = refreshToken access2,
                     expires_at = date_now w2 + 7200000\<rparr>]))"
proof (intro conjI allI impI)
  fix n t v'
  assume "db n = Some t"
  with assms have "unique_ids t" by (rule reachable_unique_ids)
  then show "length (records_of v' t) \<le> 1" by (rule unique_ids_at_most_one)
next
  let ?db1 = "db_after (get_exchange w1 req1 db)"
  let ?o2 = "get_exchange w2 req2 ?db1"
  assume h: "response (get_exchange w1 req1 db) =
           \<lparr>status = 200,
            body = [(''message'', JStr ''Successfully connected vehicle''),
                    (''vehicleId'', JStr v), (''accessToken'', JStr at1)]\<rparr>
         \<and> query_code req2 = Some code2 \<and> exchangeCode w2 code2 = Inr access2
         \<and> response ?o2 =
           \<lparr>status = 200,
            body = [(''message'', JStr ''Successfully connected vehicle''),
                    (''vehicleId'', JStr v), (''accessToken'', JStr at2)]\<rparr>"
  then have "status (response ?o2) = 200" by simp
  from get_exchange_200D [OF this] obtain code access at vr vid rest t1 where
    f: "query_code req2 = Some code" "truthy code" "exchangeCode w2 code = Inr access"
       "accessToken access = Some at" "at \<noteq> []" "getVehicles w2 at = Inr vr"
       "vehicles vr = Some (vid # rest)" "?db1 ''vehicles'' = Some t1"
    by blast
  from h f have same: "code = code2" "access = access2" by simp_all
  have eq: "?o2 =
     \<lparr>response = connected vid at,
      db_after = ?db1(''vehicles'' \<mapsto> on_conflict_update
         \<lparr>vehicle_id = vid, access_token = Some at,
          refresh_token = refreshToken access, expires_at = date_now w2 + 7200000\<rparr> t1),
      calls = [ExchangeCode code, GetVehicles at, InsertOnConflict ''vehicles''
         \<lparr>vehicle_id = vid, access_token = Some at,
          refresh_token = refreshToken access, expires_at = date_now w2 + 7200000\<rparr>]\<rparr>"
    using f by (rule get_exchange_stores)
  from h eq have "vid = v" by (simp add: connected_def)
  have "reachable ?db1" using assms by (rule reachable.exchange)
  then have u: "unique_ids t1" using f(8) by (rule reachable_unique_ids)
  let ?r = "\<lparr>vehicle_id = v, access_token = accessToken access2,
             refresh_token = refreshToken access2, expires_at = date_now w2 + 7200000\<rparr>"
  have "db_after ?o2 ''vehicles'' = Some (on_conflict_update ?r t1)"
    using eq same f(4) \<open>vid = v\<close> by simp
  moreover have "records_of v (on_conflict_update ?r t1) = [?r]"
    using on_conflict_update_records [OF u, of ?r] by simp
  ultimately show "\<exists>t. db_after ?o2 ''vehicles'' = Some t \<and> records_of v t = [?r]"
    by simp
qed

theorem exchange_twice_one_record_witness:
  "reachable vehicles_only
   \<and> (\<exists>t. db_after (get_exchange (reconnect_world 9) \<lparr>query_code = Some (JStr ''CODE2'')\<rparr>
              (db_after (get_exchange (scenario_world 5) valid_code_request vehicles_only)))
            ''vehicles'' = Some t
          \<and> records_of ''veh_123'' t =
              [\<lparr>vehicle_id = ''veh_123'', access_token = Some ''AT3'',
                refresh_token = Some ''RT3'', expires_at = 7200009\<rparr>])"
proof -
  have r: "reachable vehicles_only"
    by (rule reachable.start) (simp add: vehicles_only_def)
  from exchange_twice_one_record [OF r, of "scenario_world 5" valid_code_request
      "''veh_123''" "''AT1''" "\<lparr>query_code = Some (JStr ''CODE2'')\<rparr>" "JStr ''CODE2''"
      "reconnect_world 9"
      "\<lparr>accessToken = Some ''AT3'', refreshToken = Some ''RT3'', expiration = Some 3600009\<rparr>"
      "''AT3''"]
  show ?thesis using r
    by (simp add: scenario_world_def reconnect_world_def valid_code_request_def
        vehicles_only_def get_exchange_def insert_on_conflict_def connected_def Let_def)
qed

section \<open>POST /refresh-token: the branches of the handler\<close>

lemma body_vehicleId_defined:
  "b \<noteq> JNull \<Longrightarrow> \<exists>v. body_vehicleId (Some b) = Inr v"
  by (cases b) simp_all

lemma post_refresh_token_status:
  "status (response (post_refresh_token w req db)) \<in> {200, 404, 500}"
  by (auto simp: post_refresh_token_def Let_def caught_status vehicle_not_found_def
      refreshed_def split: sum.splits list.splits)

lemma post_refresh_token_first_call:
  "body_vehicleId (req_body req) = Inr v \<Longrightarrow>
   take 1 (calls (post_refresh_token w req db)) =
     [SelectRefreshToken ''vehicle'' (prepareValue (pg_text w) v)]"
  by (auto simp: post_refresh_token_def Let_def split: sum.splits list.splits)

lemma post_refresh_token_missing_id:
  "body_vehicleId (req_body req) = Inr None \<Longrightarrow>
   post_refresh_token w req db =
     \<lparr>response = (case db ''vehicle'' of
                    None \<Rightarrow> caught ''Failed to refresh token'' (no_relation ''vehicle'')
                  | Some t \<Rightarrow> vehicle_not_found),
      db_after = db, calls = [SelectRefreshToken ''vehicle'' None]\<rparr>"
  by (simp add: post_refresh_token_def select_refresh_token_def split: option.splits)

text \<open>
  The branch of lines 119 to 121: when the lookup in the table \<^verbatim>\<open>vehicle\<close> runs and
  returns no row, the answer is 404 and nothing else is done.
\<close>

lemma refresh_not_found_branch:
  assumes "body_vehicleId (req_body req) = Inr v"
    and "select_refresh_token ''vehicle'' (prepareValue (pg_text w) v) db = Inr []"
  shows "post_refresh_token w req db =
     \<lparr>response = \<lparr>status = 404, body = [(''error'', JStr ''Vehicle not found'')]\<rparr>,
      db_after = db,
      calls = [SelectRefreshToken ''vehicle'' (prepareValue (pg_text w) v)]\<rparr>"
  using assms by (simp add: post_refresh_token_def vehicle_not_found_def)

text \<open>
  The path of lines 123 to 146: when the lookup in the table \<^verbatim>\<open>vehicle\<close> returns a row,
  the provider exchanges its refresh token and the table \<^verbatim>\<open>vehicles\<close> exists, the rows of
  \<^verbatim>\<open>vehicles\<close> with that key get the new tokens and the clock plus 7200000 ms, and the
  answer is 200.
\<close>

lemma refresh_found_branch:
  assumes "body_vehicleId (req_body req) = Inr v"
    and "select_refresh_token ''vehicle'' (prepareValue (pg_text w) v) db = Inr (stored # others)"
    and "exchangeRefreshToken w stored = Inr access"
    and "db ''vehicles'' = Some t"
  shows "post_refresh_token w req db =
     \<lparr>response = refreshed (accessToken access),
      db_after = db(''vehicles'' \<mapsto> map (set_tokens (accessToken access) (refreshToken access)
                     (date_now w + 7200000) (prepareValue (pg_text w) v)) t),
      calls = [SelectRefreshToken ''vehicle'' (prepareValue (pg_text w) v),
               ExchangeRefreshToken stored,
               UpdateTokens ''vehicles'' (accessToken access) (refreshToken access)
                 (date_now w + 7200000) (prepareValue (pg_text w) v)]\<rparr>"
  using assms by (simp add: post_refresh_token_def update_tokens_def Let_def)

lemma error_middleware_status: "status (error_middleware err) = 500"
  by (cases err) simp

text \<open>
  Claim C10. POST /refresh-token never answers 400: the status of the handler is 200,
  404 or 500 for every request, world and database, and so is the status of the route
  when the body parser rejects the body. For every body that is a JSON value other
  than \<open>null\<close> (an object with or without \<open>vehicleId\<close>, with a \<open>vehicleId\<close> of any
  type, or a value that is no object), the first call of the handler is the lookup, with
  \<open>vehicleId\<close> as the driver binds it. When \<open>vehicleId\<close> is missing the lookup is made
  with NULL, it is the only call, the database is as it was, and the status is 500
  when the table \<^verbatim>\<open>vehicle\<close> does not exist and 404 when it does.
\<close>

theorem refresh_token_no_validation:
  "status (response (post_refresh_token w req db)) \<in> {200, 404, 500}
   \<and> status (response (post_refresh_token w req db)) \<noteq> 400
   \<and> status (response (refresh_route w parsed db)) \<in> {200, 404, 500}
   \<and> (\<forall>b. req_body req = Some b \<and> b \<noteq> JNull \<longrightarrow>
        (\<exists>v. body_vehicleId (req_body req) = Inr v
           \<and> take 1 (calls (post_refresh_token w req db)) =
               [SelectRefreshToken ''vehicle'' (prepareValue (pg_text w) v)]))
   \<and> (body_vehicleId (req_body req) = Inr None \<longrightarrow>
        calls (post_refresh_token w req db) = [SelectRefreshToken ''vehicle'' None]
      \<and> db_after (post_refresh_token w req db) = db
      \<and> status (response (post_refresh_token w req db)) =
          (if db ''vehicle'' = None then 500 else 404))"
proof (intro conjI allI impI)
  show s: "status (response (post_refresh_token w req db)) \<in> {200, 404, 500}"
    by (rule post_refresh_token_status)
  then show "status (response (post_refresh_token w req db)) \<noteq> 400" by auto
  show "status (response (refresh_route w parsed db)) \<in> {200, 404, 500}"
    using post_refresh_token_status
    by (cases parsed) (simp_all add: refresh_route_def error_middleware_status)
next
  fix b assume "req_body req = Some b \<and> b \<noteq> JNull"
  then obtain v where "body_vehicleId (req_body req) = Inr v"
    using body_vehicleId_defined [of b] by auto
  then show "\<exists>v. body_vehicleId (req_body req) = Inr v
           \<and> take 1 (calls (post_refresh_token w req db)) =
               [SelectRefreshToken ''vehicle'' (prepareValue (pg_text w) v)]"
    using post_refresh_token_first_call by blast
next
  assume m: "body_vehicleId (req_body req) = Inr None"
  show "calls (post_refresh_token w req db) = [SelectRefreshToken ''vehicle'' None]"
    by (simp add: post_refresh_token_missing_id [OF m])
  show "db_after (post_refresh_token w req db) = db"
    by (simp add: post_refresh_token_missing_id [OF m])
  show "status (response (post_refresh_token w req db)) =
          (if db ''vehicle'' = None then 500 else 404)"
    by (auto simp: post_refresh_token_missing_id [OF m] caught_status vehicle_not_found_def
        split: option.splits)
qed

theorem refresh_token_no_validation_witness:
  "status (response (post_refresh_token (scenario_world 5)
      \<lparr>req_body = Some (JObj [(''vehicleId'', JNum 42)])\<rparr> both_tables)) \<noteq> 400
   \<and> take 1 (calls (post_refresh_token (scenario_world 5)
      \<lparr>req_body = Some (JObj [(''vehicleId'', JNum 42)])\<rparr> both_tables)) =
        [SelectRefreshToken ''vehicle'' (Some ''?'')]
   \<and> status (response (post_refresh_token (scenario_world 5)
      \<lparr>req_body = Some (JObj [])\<rparr> both_tables)) = 404
   \<and> status (response (post_refresh_token (scenario_world 5)
      \<lparr>req_body = Some (JObj [])\<rparr> vehicles_only)) = 500
   \<and> status (response (refresh_route (scenario_world 5)
      (Inl (Error ''Unexpected end of JSON input'')) vehicles_only)) \<in> {200, 404, 500}"
  using refresh_token_no_validation [of "scenario_world 5"
      "\<lparr>req_body = Some (JObj [(''vehicleId'', JNum 42)])\<rparr>" both_tables]
    refresh_token_no_validation [of "scenario_world 5" "\<lparr>req_body = Some (JObj [])\<rparr>" both_tables]
    refresh_token_no_validation [of "scenario_world 5" "\<lparr>req_body = Some (JObj [])\<rparr>"
      vehicles_only "Inl (Error ''Unexpected end of JSON input'')"]
  by (simp add: scenario_world_def both_tables_def vehicles_only_def)

section \<open>The lookup reads a table that no statement writes\<close>

text \<open>
  The upsert of GET /exchange and the update of POST /refresh-token name the table
  \<^verbatim>\<open>vehicles\<close>; the lookup of POST /refresh-token names \<^verbatim>\<open>vehicle\<close>. So nothing that
  GET /exchange stores is seen by the lookup, the table \<^verbatim>\<open>vehicle\<close> stays empty in every
  reachable database, and POST /refresh-token answers 404 or 500 there, never 200.
\<close>

lemma lookup_ignores_exchange:
  "select_refresh_token ''vehicle'' p (db_after (get_exchange w req db)) =
   select_refresh_token ''vehicle'' p db"
  by (simp add: select_refresh_token_def get_exchange_other_tables)

lemma reachable_lookup_table_empty:
  "reachable db \<Longrightarrow> db ''vehicle'' = Some t \<Longrightarrow> t = []"
proof (induction arbitrary: t rule: reachable.induct)
  case (start db)
  then show ?case by blast
next
  case (exchange db w req)
  then show ?case by (simp add: get_exchange_other_tables)
next
  case (refresh db w req)
  then show ?case by (simp add: post_refresh_token_other_tables)
qed

lemma refresh_never_succeeds:
  assumes "reachable db"
  shows "status (response (post_refresh_token w req db)) = 404
       \<or> status (response (post_refresh_token w req db)) = 500"
proof (cases "db ''vehicle''")
  case None
  then show ?thesis
    by (auto simp: post_refresh_token_def select_refresh_token_def Let_def caught_status
        split: sum.splits)
next
  case (Some t)
  with assms have "t = []" by (rule reachable_lookup_table_empty)
  with Some show ?thesis
    by (auto simp: post_refresh_token_def select_refresh_token_def Let_def caught_status
        vehicle_not_found_def split: sum.splits)
qed

text \<open>
  Claim C1 says that POST /refresh-token, for a vehicle that a successful GET /exchange
  has just stored, looks up the stored refresh token and does not answer 404. The code
  does otherwise. On a database with both tables empty, the scenario's GET /exchange
  answers 200 and stores the record of \<^verbatim>\<open>veh_123\<close> in \<^verbatim>\<open>vehicles\<close>; the table \<^verbatim>\<open>vehicle\<close> is
  still empty, and POST /refresh-token for \<^verbatim>\<open>veh_123\<close> makes the lookup there and
  answers 404 \<^verbatim>\<open>{error: "Vehicle not found"}\<close>.
\<close>

theorem refresh_after_exchange_not_found:
  "response (get_exchange (scenario_world 5) valid_code_request both_tables) =
     \<lparr>status = 200,
      body = [(''message'', JStr ''Successfully connected vehicle''),
              (''vehicleId'', JStr ''veh_123''), (''accessToken'', JStr ''AT1'')]\<rparr>
   \<and> db_after (get_exchange (scenario_world 5) valid_code_request both_tables) ''vehicles'' =
       Some [\<lparr>vehicle_id = ''veh_123'', access_token = Some ''AT1'',
              refresh_token = Some ''RT1'', expires_at = 7200005\<rparr>]
   \<and> db_after (get_exchange (scenario_world 5) valid_code_request both_tables) ''vehicle'' =
       Some []
   \<and> response (post_refresh_token (scenario_world 9) (refresh_of ''veh_123'')
        (db_after (get_exchange (scenario_world 5) valid_code_request both_tables))) =
     \<lparr>status = 404, body = [(''error'', JStr ''Vehicle not found'')]\<rparr>
   \<and> calls (post_refresh_token (scenario_world 9) (refresh_of ''veh_123'')
        (db_after (get_exchange (scenario_world 5) valid_code_request both_tables))) =
     [SelectRefreshToken ''vehicle'' (Some ''veh_123'')]"
  by (simp add: scenario_world_def valid_code_request_def both_tables_def refresh_of_def
      get_exchange_def insert_on_conflict_def connected_def Let_def
      post_refresh_token_def select_refresh_token_def vehicle_not_found_def)

text \<open>
  Claim C3 says that POST /refresh-token, for a vehicle with a stored record, exchanges
  the stored refresh token, replaces the record's tokens and expiry and answers 200.
  The code does otherwise. On a database with the table \<^verbatim>\<open>vehicles\<close> alone, after the
  scenario's GET /exchange has stored the record of \<^verbatim>\<open>veh_123\<close> with the refresh token
  \<^verbatim>\<open>RT1\<close>, POST /refresh-token for \<^verbatim>\<open>veh_123\<close> makes the lookup in \<^verbatim>\<open>vehicle\<close>, which does not
  exist, and answers 500; the provider is not called and the record keeps \<^verbatim>\<open>AT1\<close>, \<^verbatim>\<open>RT1\<close>
  and its expiry.
\<close>

theorem refresh_of_stored_record_fails:
  "db_after (get_exchange (scenario_world 5) valid_code_request vehicles_only) ''vehicles'' =
       Some [\<lparr>vehicle_id = ''veh_123'', access_token = Some ''AT1'',
              refresh_token = Some ''RT1'', expires_at = 7200005\<rparr>]
   \<and> response (post_refresh_token (scenario_world 9) (refresh_of ''veh_123'')
        (db_after (get_exchange (scenario_world 5) valid_code_request vehicles_only))) =
     \<lparr>status = 500,
      body = [(''error'', JStr ''Failed to refresh token''),
              (''details'', JStr ''relation vehicle does not exist'')]\<rparr>
   \<and> calls (post_refresh_token (scenario_world 9) (refresh_of ''veh_123'')
        (db_after (get_exchange (scenario_world 5) valid_code_request vehicles_only))) =
     [SelectRefreshToken ''vehicle'' (Some ''veh_123'')]
   \<and> db_after (post_refresh_token (scenario_world 9) (refresh_of ''veh_123'')
        (db_after (get_exchange (scenario_world 5) valid_code_request vehicles_only)))
       ''vehicles'' =
       Some [\<lparr>vehicle_id = ''veh_123'', access_token = Some ''AT1'',
              refresh_token = Some ''RT1'', expires_at = 7200005\<rparr>]"
  by (simp add: scenario_world_def valid_code_request_def vehicles_only_def refresh_of_def
      get_exchange_def insert_on_conflict_def connected_def Let_def
      post_refresh_token_def select_refresh_token_def no_relation_def)

text \<open>
  Claim C6 says that POST /refresh-token, for a vehicle without a stored record,
  answers 404 \<^verbatim>\<open>{error: "Vehicle not found"}\<close>. On a database with the table \<^verbatim>\<open>vehicles\<close>
  alone, empty, the code answers 500 for the vehicle \<^verbatim>\<open>unknown\<close>: the lookup names the
  table \<^verbatim>\<open>vehicle\<close>, which does not exist. (Where the table \<^verbatim>\<open>vehicle\<close> exists and has no
  row of the vehicle, the answer is 404: \<open>refresh_not_found_branch\<close>.)
\<close>

theorem refresh_unknown_vehicle_500:
  "response (post_refresh_token (scenario_world 5) (refresh_of ''unknown'') vehicles_only) =
     \<lparr>status = 500,
      body = [(''error'', JStr ''Failed to refresh token''),
              (''details'', JStr ''relation vehicle does not exist'')]\<rparr>
   \<and> calls (post_refresh_token (scenario_world 5) (refresh_of ''unknown'') vehicles_only) =
       [SelectRefreshToken ''vehicle'' (Some ''unknown'')]
   \<and> vehicles_only ''vehicles'' = Some []"
  by (simp add: scenario_world_def vehicles_only_def refresh_of_def
      post_refresh_token_def select_refresh_token_def no_relation_def)

end
